theory Spec2Isabelle
  imports Complex_Main
begin

section \<open>The residency tracker of \<^verbatim>\<open>resident_time.py\<close>\<close>

text \<open>
  The theory embeds the classes \<^verbatim>\<open>CumulativeAvg\<close>, \<^verbatim>\<open>ATM\<close>, \<^verbatim>\<open>ResidentPerson\<close> and
  \<^verbatim>\<open>Bank\<close>. Objects become records, a method becomes a function from the object's state
  to its new state, a \<^verbatim>\<open>dict\<close> becomes a map, \<^verbatim>\<open>print\<close> becomes a list of emitted lines and
  a raised exception becomes the left summand of the result.

  Numbers. \<^verbatim>\<open>Timestamp.ToSeconds()\<close> returns the integer field \<^verbatim>\<open>seconds\<close>, so every dwell
  time is a Python \<^verbatim>\<open>int\<close>, here \<^typ>\<open>int\<close>. Python \<^verbatim>\<open>float\<close> values (the thresholds, the
  bounding-box height, the running mean) are written as \<^typ>\<open>real\<close>: comparisons between
  finite floats and integers are exact, so every test of the code is modelled exactly (a
  NaN height is not representable here). The rounding of float arithmetic is not
  modelled; no theorem below depends on the numeric value of a mean.
\<close>

subsection \<open>Messages of the sensor SDK\<close>

text \<open>
  Modelled from the spec: the message schema (\<^verbatim>\<open>sensr_proto\<close>) and protobuf's
  \<^verbatim>\<open>Timestamp\<close> are not part of the repository. Only the fields that
  \<^verbatim>\<open>resident_time.py\<close> reads are kept: a snapshot carries a bounding-box size, a label
  classification and its zone identifiers.
\<close>

record Timestamp =
  seconds :: int
  nanos :: int

definition ToSeconds :: "Timestamp \<Rightarrow> int" where
  "ToSeconds t = seconds t"

datatype LabelType = LABEL_NONE | LABEL_CAR | LABEL_PEDESTRIAN | LABEL_CYCLIST | LABEL_MISC

record Object =
  Object_id :: int
  bbox_size_z :: real
  label :: LabelType
  zone_ids :: "int list"

datatype ZoneEventType = NONE | ENTRY | EXIT

record ZoneEvent =
  ZoneEvent_type :: ZoneEventType
  ZoneEvent_id :: int
  ZoneEvent_object_id :: int
  ZoneEvent_timestamp :: Timestamp

record LosingEvent =
  LosingEvent_id :: int
  LosingEvent_timestamp :: Timestamp

record StreamMessage =
  objects :: "Object list"

record EventMessage =
  zone :: "ZoneEvent list"
  losing :: "LosingEvent list"

text \<open>\<^verbatim>\<open>HasField('stream')\<close> and \<^verbatim>\<open>HasField('event')\<close> are the two options being set.\<close>

record OutputMessage =
  stream :: "StreamMessage option"
  event :: "EventMessage option"
  timestamp :: Timestamp

subsection \<open>Console lines and exceptions\<close>

text \<open>
  Each constructor is one \<^verbatim>\<open>print\<close> of the program, with the values it formats:
  \<^item> \<open>NotExistInATM obj_id atm_id\<close>: \<^verbatim>\<open>Error: {obj_id} is not exist in ATM {id}.\<close>
  \<^item> \<open>AtmAvgLine atm_id avg\<close>: \<^verbatim>\<open>ATM({id}) avg: {avg:.2f}s.\<close>
  \<^item> \<open>ResidentLine obj_id resident_time avg zone_name\<close>: the report of a completed residency
  \<^item> \<open>IsMiscLine obj_id\<close>, \<open>IsDoorLine obj_id\<close>: \<^verbatim>\<open>Obj({obj_id}) is misc.\<close>, \<^verbatim>\<open>... is door.\<close>
  \<^item> \<open>TooLongLine obj_id\<close>: \<^verbatim>\<open>Obj({obj_id}) lives in bank too long.\<close>
\<close>

datatype console_line =
    NotExistInATM int int
  | AtmAvgLine int real
  | ResidentLine int int real string
  | IsMiscLine int
  | IsDoorLine int
  | TooLongLine int

datatype error = AttributeError | KeyError

subsection \<open>\<^verbatim>\<open>CumulativeAvg\<close>\<close>

text \<open>
  \<^verbatim>\<open>_count\<close> starts at 0 and is only ever incremented, so it is a natural number and the
  length passed to \<^verbatim>\<open>_cumulative_average\<close> is at least 1: its divisions never raise.
\<close>

record CumulativeAvg =
  avg :: real
  count :: nat

definition CumulativeAvg_init :: CumulativeAvg where
  "CumulativeAvg_init = \<lparr>avg = 0.0, count = 0\<rparr>"

definition cumulative_average :: "real \<Rightarrow> int \<Rightarrow> nat \<Rightarrow> real" where
  "cumulative_average prev_avg new_number list_length =
     (let old_weight = (real list_length - 1) / real list_length;
          new_weight = 1 / real list_length
      in (prev_avg * old_weight) + (real_of_int new_number * new_weight))"

definition CumulativeAvg_update :: "CumulativeAvg \<Rightarrow> int \<Rightarrow> CumulativeAvg" where
  "CumulativeAvg_update a v =
     (let c = count a + 1
      in \<lparr>avg = cumulative_average (avg a) v c, count = c\<rparr>)"

definition CumulativeAvg_get :: "CumulativeAvg \<Rightarrow> real" where
  "CumulativeAvg_get a = avg a"

subsection \<open>\<^verbatim>\<open>ATM\<close>: the dwell timer of one watched zone\<close>

record ATM =
  time_to_assume_noisy_obj :: real
  ATM_residents :: "int \<rightharpoonup> Timestamp"
  target_zone_id :: int
  ATM_resident_avg :: CumulativeAvg

definition ATM_init :: "int \<Rightarrow> ATM" where
  "ATM_init tzid =
     \<lparr>time_to_assume_noisy_obj = 2.0,
      ATM_residents = Map.empty,
      target_zone_id = tzid,
      ATM_resident_avg = CumulativeAvg_init\<rparr>"

definition ATM_id :: "ATM \<Rightarrow> int" where
  "ATM_id a = target_zone_id a"

definition get_avg_resident_time :: "ATM \<Rightarrow> real" where
  "get_avg_resident_time a = CumulativeAvg_get (ATM_resident_avg a)"

definition on_enter :: "ATM \<Rightarrow> int \<Rightarrow> Timestamp \<Rightarrow> ATM" where
  "on_enter a obj_id ts =
     (if \<not> obj_id \<in> dom (ATM_residents a)
      then a\<lparr>ATM_residents := (ATM_residents a)(obj_id \<mapsto> ts)\<rparr>
      else a)"

text \<open>The result is the tracker after the call and the lines it printed.\<close>

definition on_exit :: "ATM \<Rightarrow> int \<Rightarrow> Timestamp \<Rightarrow> ATM \<times> console_line list" where
  "on_exit a obj_id ts =
     (case ATM_residents a obj_id of
        Some start_time \<Rightarrow>
          (let resident_time = ToSeconds ts - ToSeconds start_time;
               a1 = (if real_of_int resident_time > time_to_assume_noisy_obj a
                     then a\<lparr>ATM_resident_avg :=
                              CumulativeAvg_update (ATM_resident_avg a) resident_time\<rparr>
                     else a)
           in (a1\<lparr>ATM_residents := (ATM_residents a1)(obj_id := None)\<rparr>, []))
      | None \<Rightarrow> (a, [NotExistInATM obj_id (ATM_id a)]))"

subsection \<open>\<^verbatim>\<open>ResidentPerson\<close>: the residency record of one object\<close>

record ResidentPerson =
  ResidentPerson_id :: int
  enter_zone :: "int option"
  histories :: "Object list"
  born_time :: Timestamp

text \<open>
  \<^verbatim>\<open>if not self._enter_zone\<close> holds for \<^verbatim>\<open>None\<close> and for the zone id 0; the loop with its
  \<^verbatim>\<open>break\<close> takes the first zone id of the snapshot, if there is one.
\<close>

definition update_starting_zone :: "ResidentPerson \<Rightarrow> Object \<Rightarrow> ResidentPerson" where
  "update_starting_zone r obj =
     (if enter_zone r = None \<or> enter_zone r = Some 0
      then (case zone_ids obj of
              [] \<Rightarrow> r
            | zone_id # _ \<Rightarrow> r\<lparr>enter_zone := Some zone_id\<rparr>)
      else r)"

definition ResidentPerson_init :: "int \<Rightarrow> Object \<Rightarrow> Timestamp \<Rightarrow> ResidentPerson" where
  "ResidentPerson_init i obj ts =
     (let r = update_starting_zone
                \<lparr>ResidentPerson_id = i, enter_zone = None, histories = [], born_time = ts\<rparr> obj
      in r\<lparr>histories := [obj], born_time := ts\<rparr>)"

text \<open>The loop of \<^verbatim>\<open>is_door\<close>, with \<^verbatim>\<open>min_height\<close> as its accumulator.\<close>

fun is_door_loop :: "real \<Rightarrow> Object list \<Rightarrow> real" where
  "is_door_loop min_height [] = min_height"
| "is_door_loop min_height (obj # objs) =
     is_door_loop (if min_height > bbox_size_z obj then bbox_size_z obj else min_height) objs"

definition is_door :: "ResidentPerson \<Rightarrow> bool" where
  "is_door r = (is_door_loop 999.0 (histories r) > 2.5)"

text \<open>The loop of \<^verbatim>\<open>is_misc\<close>: it leaves with \<^verbatim>\<open>False\<close> at the first other label.\<close>

fun is_misc_loop :: "Object list \<Rightarrow> bool" where
  "is_misc_loop [] = True"
| "is_misc_loop (obj # objs) = (if label obj \<noteq> LABEL_MISC then False else is_misc_loop objs)"

definition is_misc :: "ResidentPerson \<Rightarrow> bool" where
  "is_misc r = is_misc_loop (histories r)"

definition starting_zone :: "ResidentPerson \<Rightarrow> int option" where
  "starting_zone r = enter_zone r"

definition born_timestamp :: "ResidentPerson \<Rightarrow> Timestamp" where
  "born_timestamp r = born_time r"

definition push_history :: "ResidentPerson \<Rightarrow> Object \<Rightarrow> ResidentPerson" where
  "push_history r obj = update_starting_zone (r\<lparr>histories := histories r @ [obj]\<rparr>) obj"

subsection \<open>\<^verbatim>\<open>Bank\<close>: the dispatcher\<close>

record Bank =
  too_long_resident_time :: real
  Bank_residents :: "int \<rightharpoonup> ResidentPerson"
  Bank_resident_avg :: CumulativeAvg
  ATMs :: "int \<rightharpoonup> ATM"
  zone_info :: "int \<rightharpoonup> string"

text \<open>
  The constructor fills \<^verbatim>\<open>_zone_info\<close> from the REST service of the server; the table it
  obtains is the parameter here.
\<close>

definition Bank_init :: "(int \<rightharpoonup> string) \<Rightarrow> Bank" where
  "Bank_init zi =
     \<lparr>too_long_resident_time = 60.0 * 60.0,
      Bank_residents = Map.empty,
      Bank_resident_avg = CumulativeAvg_init,
      ATMs = [1007 \<mapsto> ATM_init 1007,
              1008 \<mapsto> ATM_init 1008,
              1009 \<mapsto> ATM_init 1009,
              1010 \<mapsto> ATM_init 1010,
              1011 \<mapsto> ATM_init 1011],
      zone_info = zi\<rparr>"

definition time_diff_in_s :: "Timestamp \<Rightarrow> Timestamp \<Rightarrow> int" where
  "time_diff_in_s time1 time2 = ToSeconds time1 - ToSeconds time2"

text \<open>\<^verbatim>\<open>self._zone_info[zone_id]\<close> raises \<^verbatim>\<open>KeyError\<close> for a key the table does not hold.\<close>

definition zone_name :: "Bank \<Rightarrow> int option \<Rightarrow> error + string" where
  "zone_name b zone_id =
     (case zone_id of
        Some z \<Rightarrow> (case zone_info b z of Some n \<Rightarrow> Inr n | None \<Rightarrow> Inl KeyError)
      | None \<Rightarrow> Inr ''No Zone'')"

definition on_entry_event_handler :: "Bank \<Rightarrow> int \<Rightarrow> int \<Rightarrow> Timestamp \<Rightarrow> Bank" where
  "on_entry_event_handler b zone_id obj_id ts =
     (case ATMs b zone_id of
        Some found_atm \<Rightarrow> b\<lparr>ATMs := (ATMs b)(zone_id \<mapsto> on_enter found_atm obj_id ts)\<rparr>
      | None \<Rightarrow> b)"

definition on_exit_event_handler ::
  "Bank \<Rightarrow> int \<Rightarrow> int \<Rightarrow> Timestamp \<Rightarrow> Bank \<times> console_line list" where
  "on_exit_event_handler b zone_id obj_id ts =
     (case ATMs b zone_id of
        Some found_atm \<Rightarrow>
          (let (atm1, out) = on_exit found_atm obj_id ts
           in (b\<lparr>ATMs := (ATMs b)(zone_id \<mapsto> atm1)\<rparr>,
               out @ [AtmAvgLine (ATM_id atm1) (get_avg_resident_time atm1)]))
      | None \<Rightarrow> (b, []))"

text \<open>
  A handler that can raise returns \<open>Inl (e, b, out)\<close>: the exception, and the state and
  the printed lines at the moment it was raised (Python keeps the mutations made before
  the exception); \<open>Inr (b, out)\<close> is a normal return.
\<close>

type_synonym outcome = "(error \<times> Bank \<times> console_line list) + (Bank \<times> console_line list)"


definition printed :: "outcome \<Rightarrow> console_line list" where
  "printed res = (case res of Inl (e, b, out) \<Rightarrow> out | Inr (b, out) \<Rightarrow> out)"


text \<open>
  \<^verbatim>\<open>self._residents.get(obj_id)\<close> is \<^verbatim>\<open>None\<close> for an unknown object, and the call
  \<^verbatim>\<open>resident.is_misc()\<close> on it raises \<^verbatim>\<open>AttributeError\<close>. The report line is formatted
  after the average is updated and before the record is deleted, so a \<^verbatim>\<open>KeyError\<close> of
  \<^verbatim>\<open>_zone_name\<close> leaves the handler between the two.
\<close>

definition on_losing_event_handler :: "Bank \<Rightarrow> int \<Rightarrow> Timestamp \<Rightarrow> outcome" where
  "on_losing_event_handler b obj_id ts =
     (case Bank_residents b obj_id of
        None \<Rightarrow> Inl (AttributeError, b, [])
      | Some resident \<Rightarrow>
          if \<not> is_misc resident \<and> \<not> is_door resident then
            (let resident_time = time_diff_in_s ts (born_timestamp resident);
                 b1 = b\<lparr>Bank_resident_avg :=
                          CumulativeAvg_update (Bank_resident_avg b) resident_time\<rparr>
             in case zone_name b1 (starting_zone resident) of
                  Inl e \<Rightarrow> Inl (e, b1, [])
                | Inr name \<Rightarrow>
                    Inr (b1\<lparr>Bank_residents := (Bank_residents b1)(obj_id := None)\<rparr>,
                         [ResidentLine obj_id resident_time
                            (CumulativeAvg_get (Bank_resident_avg b1)) name]))
          else
            (let last_word = (if is_misc resident then IsMiscLine else IsDoorLine)
             in Inr (b\<lparr>Bank_residents := (Bank_residents b)(obj_id := None)\<rparr>,
                     [last_word obj_id])))"

text \<open>The body of the loop over \<^verbatim>\<open>message.stream.objects\<close>, for one snapshot.\<close>

definition on_stream_object :: "Bank \<Rightarrow> Timestamp \<Rightarrow> Object \<Rightarrow> Bank \<times> console_line list" where
  "on_stream_object b ts obj =
     (case Bank_residents b (Object_id obj) of
        None \<Rightarrow>
          (b\<lparr>Bank_residents := (Bank_residents b)
                (Object_id obj \<mapsto> ResidentPerson_init (Object_id obj) obj ts)\<rparr>, [])
      | Some found_obj \<Rightarrow>
          (let found1 = push_history found_obj obj;
               b1 = b\<lparr>Bank_residents := (Bank_residents b)(Object_id obj \<mapsto> found1)\<rparr>
           in if real_of_int (time_diff_in_s ts (born_timestamp found1))
                   > too_long_resident_time b1
              then (b1\<lparr>Bank_residents := (Bank_residents b1)(Object_id obj := None)\<rparr>,
                    [TooLongLine (Object_id obj)])
              else (b1, [])))"

fun stream_loop :: "Bank \<Rightarrow> Timestamp \<Rightarrow> Object list \<Rightarrow> Bank \<times> console_line list" where
  "stream_loop b ts [] = (b, [])"
| "stream_loop b ts (obj # objs) =
     (let (b1, out1) = on_stream_object b ts obj;
          (b2, out2) = stream_loop b1 ts objs
      in (b2, out1 @ out2))"

definition on_zone_event :: "Bank \<Rightarrow> ZoneEvent \<Rightarrow> Bank \<times> console_line list" where
  "on_zone_event b zone_event =
     (if ZoneEvent_type zone_event = ENTRY then
        (on_entry_event_handler b (ZoneEvent_id zone_event)
           (ZoneEvent_object_id zone_event) (ZoneEvent_timestamp zone_event), [])
      else if ZoneEvent_type zone_event = EXIT then
        on_exit_event_handler b (ZoneEvent_id zone_event)
          (ZoneEvent_object_id zone_event) (ZoneEvent_timestamp zone_event)
      else (b, []))"

fun zone_loop :: "Bank \<Rightarrow> ZoneEvent list \<Rightarrow> Bank \<times> console_line list" where
  "zone_loop b [] = (b, [])"
| "zone_loop b (zone_event # evs) =
     (let (b1, out1) = on_zone_event b zone_event;
          (b2, out2) = zone_loop b1 evs
      in (b2, out1 @ out2))"

text \<open>The loop over the loss events stops at the first exception.\<close>

fun losing_loop :: "Bank \<Rightarrow> LosingEvent list \<Rightarrow> outcome" where
  "losing_loop b [] = Inr (b, [])"
| "losing_loop b (losing_event # evs) =
     (case on_losing_event_handler b (LosingEvent_id losing_event)
             (LosingEvent_timestamp losing_event) of
        Inl (e, b1, out1) \<Rightarrow> Inl (e, b1, out1)
      | Inr (b1, out1) \<Rightarrow>
          (case losing_loop b1 evs of
             Inl (e, b2, out2) \<Rightarrow> Inl (e, b2, out1 @ out2)
           | Inr (b2, out2) \<Rightarrow> Inr (b2, out1 @ out2)))"

definition on_get_output_message :: "Bank \<Rightarrow> OutputMessage \<Rightarrow> outcome" where
  "on_get_output_message b message =
     (let (b1, out1) = (case stream message of
                          Some s \<Rightarrow> stream_loop b (timestamp message) (objects s)
                        | None \<Rightarrow> (b, []))
      in case event message of
           Some ev \<Rightarrow>
             (let (b2, out2) = zone_loop b1 (zone ev)
              in case losing_loop b2 (losing ev) of
                   Inl (e, b3, out3) \<Rightarrow> Inl (e, b3, out1 @ out2 @ out3)
                 | Inr (b3, out3) \<Rightarrow> Inr (b3, out1 @ out2 @ out3))
         | None \<Rightarrow> Inr (b1, out1))"

subsection \<open>Example inputs\<close>

text \<open>Small concrete values, on which the theorems below are evaluated.\<close>

definition at_second :: "int \<Rightarrow> Timestamp" where
  "at_second s = \<lparr>seconds = s, nanos = 0\<rparr>"

definition snapshot :: "int \<Rightarrow> real \<Rightarrow> LabelType \<Rightarrow> int list \<Rightarrow> Object" where
  "snapshot i h l zs = \<lparr>Object_id = i, bbox_size_z = h, label = l, zone_ids = zs\<rparr>"

text \<open>A bank whose server knows the single zone 1007.\<close>

definition lobby_bank :: Bank where
  "lobby_bank = Bank_init [1007 \<mapsto> ''Lobby'']"

section \<open>Properties\<close>

subsection \<open>Auxiliary facts\<close>


lemma is_door_loop_Min:
  "is_door_loop m objs = Min (insert m (bbox_size_z ` set objs))"
proof (induction objs arbitrary: m)
  case Nil
  show ?case by simp
next
  case (Cons obj objs)
  have "Min (insert (min m (bbox_size_z obj)) (bbox_size_z ` set objs))
      = Min (insert m (insert (bbox_size_z obj) (bbox_size_z ` set objs)))"
    by (cases "bbox_size_z ` set objs = {}") (simp_all add: min.assoc)
  moreover have "(if bbox_size_z obj < m then bbox_size_z obj else m) = min m (bbox_size_z obj)"
    by (simp add: min_def)
  ultimately show ?case using Cons.IH by simp
qed

lemma is_misc_loop_all:
  "is_misc_loop objs \<longleftrightarrow> (\<forall>obj \<in> set objs. label obj = LABEL_MISC)"
  by (induction objs) simp_all

lemma push_history_keeps_zone:
  "enter_zone r = Some z \<Longrightarrow> z \<noteq> 0 \<Longrightarrow> enter_zone (push_history r obj) = Some z"
  by (simp add: push_history_def update_starting_zone_def)

lemma foldl_push_history_keeps_zone:
  "enter_zone r = Some z \<Longrightarrow> z \<noteq> 0 \<Longrightarrow> enter_zone (foldl push_history r objs) = Some z"
  by (induction objs arbitrary: r) (simp_all add: push_history_keeps_zone)


subsection \<open>The zone tracker\<close>



text \<open>
  C7. An entry event for an object that is already pending is ignored: the tracker,
  and with it the entry time recorded first, is unchanged, and no error is possible.
  Entering twice is the same as entering once.
\<close>

theorem on_enter_idempotent:
  "(ATM_residents a obj_id = Some start_time \<longrightarrow>
      on_enter a obj_id ts = a
      \<and> ATM_residents (on_enter a obj_id ts) obj_id = Some start_time)
   \<and> on_enter (on_enter a obj_id ts) obj_id ts' = on_enter a obj_id ts"
  by (auto simp add: on_enter_def dom_def)

theorem on_enter_idempotent_witness:
  "ATM_residents (on_enter (ATM_init 1007) 5 (at_second 0)) 5 = Some (at_second 0)
   \<and> on_enter (on_enter (ATM_init 1007) 5 (at_second 0)) 5 (at_second 9)
       = on_enter (ATM_init 1007) 5 (at_second 0)
   \<and> ATM_residents (on_enter (on_enter (ATM_init 1007) 5 (at_second 0)) 5 (at_second 9)) 5
       = Some (at_second 0)"
  using on_enter_idempotent
      [of "on_enter (ATM_init 1007) 5 (at_second 0)" 5 "at_second 0" "at_second 9"]
  by (simp add: on_enter_def ATM_init_def)

text \<open>
  C8. For an object without an entry, \<^verbatim>\<open>on_exit\<close> returns normally: it prints the
  missing-entry line and leaves the tracker, pending map and average, as it was.
\<close>

theorem on_exit_missing:
  assumes "ATM_residents a obj_id = None"
  shows "on_exit a obj_id ts = (a, [NotExistInATM obj_id (ATM_id a)])"
  using assms by (simp add: on_exit_def)

theorem on_exit_missing_witness:
  "ATM_residents (ATM_init 1007) 5 = None
   \<and> on_exit (ATM_init 1007) 5 (at_second 3) = (ATM_init 1007, [NotExistInATM 5 1007])"
  using on_exit_missing [of "ATM_init 1007" 5 "at_second 3"]
  by (simp add: ATM_init_def ATM_id_def)

subsection \<open>The residency record\<close>

text \<open>
  C9. For a record with a non-empty history, \<^verbatim>\<open>is_door\<close> holds exactly when the
  minimum bounding-box height over the whole history exceeds 2.5, and \<^verbatim>\<open>is_misc\<close>
  holds exactly when every snapshot is labelled \<^verbatim>\<open>LABEL_MISC\<close>.
\<close>

theorem classify_door_misc:
  assumes "histories r \<noteq> []"
  shows "(is_door r \<longleftrightarrow> Min (bbox_size_z ` set (histories r)) > 2.5)
       \<and> (is_misc r \<longleftrightarrow> (\<forall>obj \<in> set (histories r). label obj = LABEL_MISC))"
proof -
  from assms have ne: "bbox_size_z ` set (histories r) \<noteq> {}" by simp
  have "is_door r \<longleftrightarrow> 2.5 < Min (insert 999.0 (bbox_size_z ` set (histories r)))"
    by (simp add: is_door_def is_door_loop_Min)
  also have "\<dots> \<longleftrightarrow> 2.5 < Min (bbox_size_z ` set (histories r))"
    using ne by simp
  finally show ?thesis by (simp add: is_misc_def is_misc_loop_all)
qed

theorem classify_door_misc_witness:
  "histories (push_history (ResidentPerson_init 7 (snapshot 7 2.6 LABEL_MISC []) (at_second 0))
                (snapshot 7 1.7 LABEL_PEDESTRIAN [1007])) \<noteq> []
   \<and> \<not> is_door (push_history (ResidentPerson_init 7 (snapshot 7 2.6 LABEL_MISC []) (at_second 0))
                (snapshot 7 1.7 LABEL_PEDESTRIAN [1007]))
   \<and> \<not> is_misc (push_history (ResidentPerson_init 7 (snapshot 7 2.6 LABEL_MISC []) (at_second 0))
                (snapshot 7 1.7 LABEL_PEDESTRIAN [1007]))"
  using classify_door_misc
      [of "push_history (ResidentPerson_init 7 (snapshot 7 2.6 LABEL_MISC []) (at_second 0))
             (snapshot 7 1.7 LABEL_PEDESTRIAN [1007])"]
  by (simp add: ResidentPerson_init_def push_history_def snapshot_def
        update_starting_zone_def Let_def)

text \<open>
  C10. Once the first zone entered is a non-zero zone id, no later snapshot changes it.
  A first zone of 0 counts as unset, like \<^verbatim>\<open>None\<close>: the next snapshot that lies in a zone
  overwrites it with its first zone id.
\<close>

theorem starting_zone_fixed_unless_zero:
  "(enter_zone r = Some z \<and> z \<noteq> 0 \<longrightarrow>
      starting_zone (foldl push_history r objs) = Some z)
   \<and> ((enter_zone r' = Some 0 \<or> enter_zone r' = None) \<and> zone_ids obj = z' # zs \<longrightarrow>
      starting_zone (push_history r' obj) = Some z')"
  by (auto simp add: starting_zone_def foldl_push_history_keeps_zone
        push_history_def update_starting_zone_def)

theorem starting_zone_fixed_unless_zero_witness:
  "enter_zone (ResidentPerson_init 7 (snapshot 7 1.7 LABEL_PEDESTRIAN [1007]) (at_second 0))
     = Some 1007
   \<and> starting_zone (foldl push_history
       (ResidentPerson_init 7 (snapshot 7 1.7 LABEL_PEDESTRIAN [1007]) (at_second 0))
       [snapshot 7 1.7 LABEL_PEDESTRIAN [1008], snapshot 7 1.7 LABEL_PEDESTRIAN []]) = Some 1007
   \<and> enter_zone (ResidentPerson_init 7 (snapshot 7 1.7 LABEL_PEDESTRIAN [0]) (at_second 0))
     = Some 0
   \<and> starting_zone (push_history
       (ResidentPerson_init 7 (snapshot 7 1.7 LABEL_PEDESTRIAN [0]) (at_second 0))
       (snapshot 7 1.7 LABEL_PEDESTRIAN [1008, 1009])) = Some 1008"
  using starting_zone_fixed_unless_zero
    [of "ResidentPerson_init 7 (snapshot 7 1.7 LABEL_PEDESTRIAN [1007]) (at_second 0)" 1007
        "[snapshot 7 1.7 LABEL_PEDESTRIAN [1008], snapshot 7 1.7 LABEL_PEDESTRIAN []]"
        "ResidentPerson_init 7 (snapshot 7 1.7 LABEL_PEDESTRIAN [0]) (at_second 0)"
        "snapshot 7 1.7 LABEL_PEDESTRIAN [1008, 1009]" 1008 "[1009]"]
  by (simp add: ResidentPerson_init_def snapshot_def update_starting_zone_def Let_def)

subsection \<open>The dispatcher\<close>



text \<open>
  C5. A loss event for an object without a record raises: the handler fails with
  \<^verbatim>\<open>AttributeError\<close> on the missing record, before it prints, deletes or updates
  anything, and the loop over the loss events of the message stops there.
\<close>

theorem losing_unknown_object_raises:
  assumes "Bank_residents b obj_id = None"
  shows "on_losing_event_handler b obj_id ts = Inl (AttributeError, b, [])
       \<and> losing_loop b (\<lparr>LosingEvent_id = obj_id, LosingEvent_timestamp = ts\<rparr> # evs)
           = Inl (AttributeError, b, [])"
  using assms by (simp add: on_losing_event_handler_def)

theorem losing_unknown_object_raises_witness:
  "Bank_residents lobby_bank 7 = None
   \<and> on_losing_event_handler lobby_bank 7 (at_second 30) = Inl (AttributeError, lobby_bank, [])
   \<and> losing_loop lobby_bank [\<lparr>LosingEvent_id = 7, LosingEvent_timestamp = at_second 30\<rparr>]
       = Inl (AttributeError, lobby_bank, [])"
  using losing_unknown_object_raises [of lobby_bank 7 "at_second 30" "[]"]
  by (simp add: lobby_bank_def Bank_init_def)

text \<open>
  C6, as the code has it. \<^verbatim>\<open>_zone_name\<close> maps the absent zone id \<^verbatim>\<open>None\<close> to "No Zone"
  and a zone id of the table to its name. A zone id that the table does not hold is
  not mapped to "No Zone": the lookup raises \<^verbatim>\<open>KeyError\<close>.
\<close>

theorem zone_name_cases:
  "zone_name b None = Inr ''No Zone''
   \<and> (zone_info b z = Some n \<longrightarrow> zone_name b (Some z) = Inr n)
   \<and> (zone_info b z' = None \<longrightarrow> zone_name b (Some z') = Inl KeyError)"
  by (simp add: zone_name_def)

theorem zone_name_cases_witness:
  "zone_name lobby_bank None = Inr ''No Zone''
   \<and> zone_info lobby_bank 1007 = Some ''Lobby''
   \<and> zone_name lobby_bank (Some 1007) = Inr ''Lobby''
   \<and> zone_info lobby_bank 1012 = None
   \<and> zone_name lobby_bank (Some 1012) = Inl KeyError"
  using zone_name_cases [of lobby_bank 1007 "''Lobby''" 1012]
  by (simp add: lobby_bank_def Bank_init_def)

text \<open>
  The claim C6 as stated fails: zone 1012 is unresolved by the table of
  \<open>lobby_bank\<close>, and its name is not "No Zone".
\<close>

theorem zone_name_unresolved_counterexample:
  "zone_info lobby_bank 1012 = None
   \<and> zone_name lobby_bank (Some 1012) \<noteq> Inr ''No Zone''"
  by (simp add: zone_name_def lobby_bank_def Bank_init_def)




end
